theory Spec2Isabelle
  imports Main "HOL-Library.Word"
begin

section \<open>Go values used by the sources\<close>

text \<open>
  Go strings are byte sequences: \<open>string\<close> (a \<open>char list\<close>) models them.
  Go's \<open>int\<close> is a 64-bit machine integer on the platforms minikube is built for; its
  addition wraps, as word addition does.
\<close>

type_synonym go_int = "64 word"

text \<open>
  Error values. \<open>Errorf m\<close> is the value of \<open>errors.Errorf\<close> with the finished message
  \<open>m\<close>. The three sentinels are the package variables of \<open>powershell.go\<close> (Go
  compares them by identity, so each is a constructor of its own).
  \<open>InvalidWindowsVersion\<close> is the error kind of the Windows version check, and
  \<open>External m\<close> stands for an error produced outside these sources (os/exec, strconv,
  the provisioning and persistence packages).
\<close>

datatype error =
    Errorf string
  | ErrPowerShellNotFound
  | ErrNotAdministrator
  | ErrNotInstalled
  | InvalidWindowsVersion string
  | External string

text \<open>
  \<open>strings.Split(s, sep)\<close> for a separator of one byte: the pieces of \<open>s\<close> between the
  occurrences of \<open>sep\<close>. The empty string gives one empty piece, as in Go.
  \<open>splitAcc cur s sep\<close> scans \<open>s\<close> with the piece read so far in \<open>cur\<close>.
\<close>

fun splitAcc :: "string \<Rightarrow> string \<Rightarrow> char \<Rightarrow> string list" where
  "splitAcc cur [] sep = [cur]"
| "splitAcc cur (c # cs) sep =
     (if c = sep then cur # splitAcc [] cs sep else splitAcc (cur @ [c]) cs sep)"

definition Split :: "string \<Rightarrow> char \<Rightarrow> string list" where
  "Split s sep = splitAcc [] s sep"

text \<open>\<open>strings.Join(elems, sep)\<close>.\<close>

fun Join :: "string list \<Rightarrow> string \<Rightarrow> string" where
  "Join [] sep = []"
| "Join [x] sep = x"
| "Join (x # y # ys) sep = x @ sep @ Join (y # ys) sep"

section \<open>The OS flag: \<open>validateOS\<close> and \<open>parseOSFlag\<close> (cmd/minikube/cmd/node_add.go)\<close>

text \<open>
  Modelled from the spec: \<open>node.ValidOS()\<close> is not among the sources. It is the
  supported-kind set \<open>{linux, windows}\<close> in its canonical order; \<open>TestValidateOS\<close> fixes
  the order through the message it expects.
\<close>

definition ValidOS :: "string list" where
  "ValidOS = [''linux'', ''windows'']"

text \<open>The loop of \<open>validateOS\<close>: does \<open>os\<close> equal one of the valid options?\<close>

primrec matchesValid :: "string \<Rightarrow> string list \<Rightarrow> bool" where
  "matchesValid os [] = False"
| "matchesValid os (validOS # rest) = (if os = validOS then True else matchesValid os rest)"

definition validateOS :: "string \<Rightarrow> error option" where
  "validateOS os =
     (let validOptions = ValidOS in
      if matchesValid os validOptions then None
      else Some (Errorf (''Invalid OS: '' @ os @ ''. Valid OS are: '' @ Join validOptions '', '')))"

text \<open>
  A Go map read: a missing key reads as the zero value, the empty string.
\<close>

definition lookup :: "(string \<rightharpoonup> string) \<Rightarrow> string \<Rightarrow> string" where
  "lookup m k = (case m k of None \<Rightarrow> [] | Some v \<Rightarrow> v)"

text \<open>
  The loop of \<open>parseOSFlag\<close> over the comma-separated parts: each part is split at
  every \<open>=\<close>; a part that does not give exactly two pieces ends the function with the
  format error, which quotes the whole flag value; otherwise the pair is stored.
\<close>

fun parseParts :: "string \<Rightarrow> string list \<Rightarrow> (string \<rightharpoonup> string) \<Rightarrow> error + (string \<rightharpoonup> string)" where
  "parseParts osFlagValue [] osInfo = Inr osInfo"
| "parseParts osFlagValue (part # parts) osInfo =
     (let kv = Split part CHR ''='' in
      if length kv \<noteq> 2 then Inl (Errorf (''Invalid format for --os flag: '' @ osFlagValue))
      else parseParts osFlagValue parts (osInfo(kv ! 0 \<mapsto> kv ! 1)))"

definition parseOSFlag :: "string \<Rightarrow> error + (string \<times> string)" where
  "parseOSFlag osFlagValue =
     (case parseParts osFlagValue (Split osFlagValue CHR '','')
             [''os'' \<mapsto> ''linux'', ''version'' \<mapsto> ''''] of
        Inl err \<Rightarrow> Inl err
      | Inr osInfo \<Rightarrow>
          (let osInfo' =
                 (if lookup osInfo ''os'' = ''windows'' \<and> lookup osInfo ''version'' = ''''
                  then osInfo(''version'' \<mapsto> ''2022'') else osInfo)
           in Inr (lookup osInfo' ''os'', lookup osInfo' ''version'')))"

text \<open>
  The reading of the specification, for comparison: a pair is well formed when it splits
  at its first \<open>=\<close> into two tokens that are both non-empty.
\<close>

definition splitsAtFirstEq :: "string \<Rightarrow> bool" where
  "splitsAtFirstEq part =
     (let key = takeWhile (\<lambda>c. c \<noteq> CHR ''='') part;
          rest = dropWhile (\<lambda>c. c \<noteq> CHR ''='') part
      in key \<noteq> [] \<and> rest \<noteq> [] \<and> tl rest \<noteq> [])"

text \<open>What the code checks instead: the part holds exactly one \<open>=\<close>.\<close>

definition oneEq :: "string \<Rightarrow> bool" where
  "oneEq part = (count_list part CHR ''='' = 1)"

section \<open>Adding a node: \<open>nodeAddCmd.Run\<close> (cmd/minikube/cmd/node_add.go)\<close>

text \<open>
  The fields of \<open>config.Node\<close> and \<open>config.ClusterConfig\<close> that \<open>Run\<close> reads or writes.
  (\<open>cc_Name\<close> is the cluster's \<open>Name\<close>, \<open>kc_KubernetesVersion\<close> the \<open>KubernetesVersion\<close>
  of its \<open>KubernetesConfig\<close>: record fields need names of their own.)
\<close>

record Node =
  Name :: string
  Worker :: bool
  ControlPlane :: bool
  KubernetesVersion :: string

record KubernetesConfig =
  kc_KubernetesVersion :: string

record ClusterConfig =
  cc_Name :: string
  Driver :: string
  Nodes :: "Node list"
  Memory :: go_int
  MultiNodeRequested :: bool
  KubernetesConfig :: KubernetesConfig

text \<open>The package variables the flags of the subcommand are bound to.\<close>

record flags =
  cpNode :: bool
  workerNode :: bool
  deleteNodeOnFailure :: bool
  osType :: string

text \<open>The defaults that \<open>init\<close> registers for the four flags.\<close>

definition init_flags :: flags where
  "init_flags = \<lparr>cpNode = False, workerNode = True, deleteNodeOnFailure = False, osType = ''linux''\<rparr>"

text \<open>
  What \<open>Run\<close> writes to the user: the calls of package \<open>out\<close>, the multi-node CNI
  warning and the step registration. A call of package \<open>out\<close> prints and returns; the
  process is ended only through package \<open>exit\<close>.
\<close>

datatype style = Happy | Ready

datatype out_arg = Str string | Strs "string list"

datatype out_event =
    FailureT string
  | ErrLn string go_int error
  | Step style string "(string \<times> out_arg) list"
  | WarnAboutMultiNodeCNI
  | SetStep_InitialSetup

datatype reason = Usage | GuestNodeAdd | HostSaveProfile

text \<open>
  How \<open>Run\<close> ends: it returns, or the process exits through \<open>exit.Message\<close> (with the
  template and the error it shows, if any) or \<open>exit.Error\<close>, or the index expression
  \<open>cc.Nodes[len(cc.Nodes)-1]\<close> panics on an empty node list.
\<close>

datatype status =
    Returned
  | ExitMessage reason string "error option"
  | ExitError reason string error
  | IndexPanic

text \<open>
  The result of one run: how it ended, what it printed, the working copy of the cluster
  config as it stood at the end, the node descriptor if one was built, and the config
  written by \<open>config.SaveProfile\<close> if it was written.
\<close>

record result =
  r_status :: status
  r_out :: "out_event list"
  r_cc :: ClusterConfig
  r_node :: "Node option"
  r_saved :: "ClusterConfig option"

text \<open>
  The functions of other packages that \<open>Run\<close> calls, as parameters: the set behind the
  Windows version check, \<open>driver.BareMetal\<close>, \<open>config.IsHA\<close>, \<open>node.ID\<close>, \<open>node.Name\<close>,
  \<open>cni.IsDisabled\<close>, \<open>node.Add\<close> (it receives the config by pointer, so it returns the
  config it leaves), \<open>maybeDeleteAndRetry\<close> (its error result) and \<open>config.SaveProfile\<close>.
\<close>

record collab =
  supportedWindowsVersions :: "string list"
  BareMetal :: "string \<Rightarrow> bool"
  IsHA :: "ClusterConfig \<Rightarrow> bool"
  ID :: "string \<Rightarrow> error + go_int"
  node_Name :: "go_int \<Rightarrow> string"
  IsDisabled :: "ClusterConfig \<Rightarrow> bool"
  Add :: "ClusterConfig \<Rightarrow> Node \<Rightarrow> bool \<Rightarrow> ClusterConfig \<times> error option"
  maybeDeleteAndRetry :: "ClusterConfig \<Rightarrow> Node \<Rightarrow> error \<Rightarrow> error option"
  SaveProfile :: "string \<Rightarrow> ClusterConfig \<Rightarrow> error option"

text \<open>
  Modelled from the spec: \<open>validateWindowsOSVersion\<close> is not among the sources. It
  validates the version against a supported-Windows-version set, and an unsupported
  version fails with \<open>InvalidWindowsVersion\<close>. The set is a parameter.
\<close>

definition validateWindowsOSVersion :: "string list \<Rightarrow> string \<Rightarrow> error option" where
  "validateWindowsOSVersion supported version =
     (if version \<in> set supported then None else Some (InvalidWindowsVersion version))"

text \<open>
  The checks of \<open>Run\<close> on the flags, before the cluster is loaded: the exit they end in,
  if any.
\<close>

definition preflight :: "collab \<Rightarrow> flags \<Rightarrow> status option" where
  "preflight c fl =
     (case parseOSFlag (osType fl) of
        Inl err \<Rightarrow> Some (ExitMessage Usage ''{{.err}}'' (Some err))
      | Inr (os, windowsVersion) \<Rightarrow>
          (case validateOS os of
             Some err \<Rightarrow> Some (ExitMessage Usage ''{{.err}}'' (Some err))
           | None \<Rightarrow>
               (case (if windowsVersion \<noteq> ''''
                      then validateWindowsOSVersion (supportedWindowsVersions c) windowsVersion
                      else None) of
                  Some err \<Rightarrow> Some (ExitMessage Usage ''{{.err}}'' (Some err))
                | None \<Rightarrow>
                    (if os = ''windows'' \<and> cpNode fl
                     then Some (ExitMessage Usage
                                  ''Windows node cannot be used as control-plane nodes.'' None)
                     else None))))"

definition msgBareMetal :: string where
  "msgBareMetal = ''none driver does not support multi-node clusters''"

definition msgNonHA :: string where
  "msgNonHA =
     ''Adding a control-plane node to a non-HA (non-multi-control plane) cluster is not currently supported. Please first delete the cluster and use ''
     @ [CHR 0x27] @ ''minikube start --ha'' @ [CHR 0x27] @ '' to create new one.''"

text \<open>
  The name of the new node, for a non-empty node list: the id of the last node's name,
  or the length of the list (with a line on the error output) when \<open>node.ID\<close> fails; then
  \<open>node.Name\<close> of the id plus one.
\<close>

definition nextName :: "collab \<Rightarrow> Node list \<Rightarrow> out_event list \<times> string" where
  "nextName c nodes =
     (case ID c (Name (last nodes)) of
        Inr lastID \<Rightarrow> ([], node_Name c (lastID + 1))
      | Inl err \<Rightarrow>
          (let lastID = of_nat (length nodes)
           in ([ErrLn ''determining last node index (will assume %d): %v'' lastID err],
               node_Name c (lastID + 1))))"

text \<open>
  \<open>Run\<close> from the loaded config \<open>cc\<close> (the result of \<open>mustload.Healthy\<close>) up to the call
  of \<open>node.Add\<close>: the two driver and HA messages, the roles, the new node's name and
  descriptor, and the memory default of the first added node. \<open>mem\<close> is
  \<open>viper.GetString(memory)\<close>.
\<close>

definition prepare ::
  "collab \<Rightarrow> flags \<Rightarrow> string \<Rightarrow> ClusterConfig \<Rightarrow>
     (out_event list \<times> status) + (out_event list \<times> ClusterConfig \<times> Node)" where
  "prepare c fl mem cc =
     (let out1 = (if BareMetal c (Driver cc) then [FailureT msgBareMetal] else []);
          out2 = (if cpNode fl \<and> \<not> IsHA c cc then [FailureT msgNonHA] else []);
          roles = (if workerNode fl then [''worker''] else []) @
                  (if cpNode fl then [''control-plane''] else [])
      in if Nodes cc = [] then Inl (out1 @ out2, IndexPanic)
         else
           (case nextName c (Nodes cc) of
              (out3, name) \<Rightarrow>
                (let out4 = [Step Happy ''Adding node {{.name}} to cluster {{.cluster}} as {{.roles}}''
                               [(''name'', Str name), (''cluster'', Str (cc_Name cc)),
                                (''roles'', Strs roles)]];
                     n = \<lparr>Name = name, Worker = workerNode fl, ControlPlane = cpNode fl,
                          KubernetesVersion = kc_KubernetesVersion (KubernetesConfig cc)\<rparr>;
                     cc1 = (if length (Nodes cc) = 1 \<and> mem = '''' then cc\<lparr>Memory := 2200\<rparr> else cc);
                     out5 = (if length (Nodes cc) = 1 \<and>
                                (\<not> MultiNodeRequested cc1 \<or> IsDisabled c cc1)
                             then [WarnAboutMultiNodeCNI] else [])
                 in Inr (out1 @ out2 @ out3 @ out4 @ out5 @ [SetStep_InitialSetup], cc1, n))))"

text \<open>
  The rest of \<open>Run\<close>: \<open>node.Add\<close>, on its error \<open>maybeDeleteAndRetry\<close>, then
  \<open>config.SaveProfile\<close> and the closing step.
\<close>

definition provision ::
  "collab \<Rightarrow> flags \<Rightarrow> out_event list \<Rightarrow> ClusterConfig \<Rightarrow> Node \<Rightarrow> result" where
  "provision c fl evs cc n =
     (case Add c cc n (deleteNodeOnFailure fl) of
        (cc2, addErr) \<Rightarrow>
          (case (case addErr of None \<Rightarrow> None
                 | Some err \<Rightarrow> maybeDeleteAndRetry c cc2 n err) of
             Some err \<Rightarrow>
               \<lparr>r_status = ExitError GuestNodeAdd ''failed to add node'' err, r_out = evs,
                r_cc = cc2, r_node = Some n, r_saved = None\<rparr>
           | None \<Rightarrow>
               (case SaveProfile c (cc_Name cc2) cc2 of
                  Some err \<Rightarrow>
                    \<lparr>r_status = ExitError HostSaveProfile ''failed to save config'' err,
                     r_out = evs, r_cc = cc2, r_node = Some n, r_saved = None\<rparr>
                | None \<Rightarrow>
                    \<lparr>r_status = Returned,
                     r_out = evs @ [Step Ready ''Successfully added {{.name}} to {{.cluster}}!''
                                     [(''name'', Str (Name n)), (''cluster'', Str (cc_Name cc2))]],
                     r_cc = cc2, r_node = Some n, r_saved = Some cc2\<rparr>)))"

definition Run :: "collab \<Rightarrow> flags \<Rightarrow> string \<Rightarrow> ClusterConfig \<Rightarrow> result" where
  "Run c fl mem cc =
     (case preflight c fl of
        Some st \<Rightarrow> \<lparr>r_status = st, r_out = [], r_cc = cc, r_node = None, r_saved = None\<rparr>
      | None \<Rightarrow>
          (case prepare c fl mem cc of
             Inl (evs, st) \<Rightarrow>
               \<lparr>r_status = st, r_out = evs, r_cc = cc, r_node = None, r_saved = None\<rparr>
           | Inr (evs, cc1, n) \<Rightarrow> provision c fl evs cc1 n))"

text \<open>
  Sample surroundings for running the model on concrete inputs: Windows Server 2019 and
  2022 supported, HA meaning more than one control-plane node, node names \<open>m02\<close>,
  \<open>m03\<close>, ... read back by \<open>ID\<close> (any other name has no id), a provisioning step that
  appends the node, and a save that succeeds.
\<close>

definition sampleCollab :: collab where
  "sampleCollab =
     \<lparr>supportedWindowsVersions = [''2019'', ''2022''],
      BareMetal = (\<lambda>d. d = ''none''),
      IsHA = (\<lambda>cc. 1 < length (filter ControlPlane (Nodes cc))),
      ID = (\<lambda>name. if name = ''m02'' then Inr 2 else if name = ''m03'' then Inr 3
                     else Inl (External ''invalid syntax'')),
      node_Name = (\<lambda>i. if i = 2 then ''m02'' else if i = 3 then ''m03'' else ''m04''),
      IsDisabled = (\<lambda>cc. False),
      Add = (\<lambda>cc n d. (cc\<lparr>Nodes := Nodes cc @ [n]\<rparr>, None)),
      maybeDeleteAndRetry = (\<lambda>cc n err. Some err),
      SaveProfile = (\<lambda>name cc. None)\<rparr>"

definition sampleCluster :: ClusterConfig where
  "sampleCluster =
     \<lparr>cc_Name = ''minikube'', Driver = ''docker'',
      Nodes = [\<lparr>Name = ''primary'', Worker = True, ControlPlane = True,
                KubernetesVersion = ''v1.30.0''\<rparr>],
      Memory = 4000, MultiNodeRequested = False,
      KubernetesConfig = \<lparr>kc_KubernetesVersion = ''v1.30.0''\<rparr>\<rparr>"

section \<open>Running PowerShell: \<open>init\<close> and \<open>cmdOut\<close> (pkg/minikube/node/powershell.go)\<close>

text \<open>
  The operating system as \<open>os/exec\<close> shows it: \<open>exec.LookPath\<close> (a path and an error),
  and what \<open>cmd.Run()\<close> does for a path and its arguments: the bytes written to the
  standard output and standard error buffers, and the error of the run.
\<close>

record host =
  LookPath :: "string \<Rightarrow> string \<times> error option"
  exec_Run :: "string \<Rightarrow> string list \<Rightarrow> string \<times> string \<times> error option"

text \<open>\<open>init\<close> stores the path \<open>LookPath\<close> returns in \<open>powershell\<close> and drops its error.\<close>

definition init_powershell :: "host \<Rightarrow> string" where
  "init_powershell h = fst (LookPath h ''powershell.exe'')"

datatype klog = Infof string "string list"

text \<open>
  \<open>cmdOut\<close>, with the value of the package variable \<open>powershell\<close> as a parameter: the
  log lines it writes, and its two results.
\<close>

definition cmdOut :: "host \<Rightarrow> string \<Rightarrow> string list \<Rightarrow> klog list \<times> string \<times> error option" where
  "cmdOut h powershell args =
     (let args' = [''-NoProfile'', ''-NonInteractive''] @ args
      in case exec_Run h powershell args' of
           (stdout, stderr, err) \<Rightarrow>
             ([Infof ''[executing ==>] : %v %v'' [powershell, Join args' '' ''],
               Infof ''[stdout =====>] : %s'' [stdout],
               Infof ''[stderr =====>] : %s'' [stderr]],
              stdout, err))"

definition cmd :: "host \<Rightarrow> string \<Rightarrow> string list \<Rightarrow> klog list \<times> error option" where
  "cmd h powershell args = (case cmdOut h powershell args of (logs, _, err) \<Rightarrow> (logs, err))"

text \<open>
  Sample hosts. On \<open>failingHost e\<close> PowerShell is found and every command writes \<open>out\<close>
  to its standard output and \<open>e\<close> to its standard error and exits with status 1. On
  \<open>bareHost\<close> no \<open>powershell.exe\<close> is on the search path, and running the empty path
  fails inside \<open>os/exec\<close> with that package's own error.
\<close>

definition failingHost :: "string \<Rightarrow> host" where
  "failingHost e =
     \<lparr>LookPath = (\<lambda>file. (''C:/Windows/System32/WindowsPowerShell/v1.0/powershell.exe'', None)),
      exec_Run = (\<lambda>path args. (''out'', e, Some (External ''exit status 1'')))\<rparr>"

definition bareHost :: host where
  "bareHost =
     \<lparr>LookPath = (\<lambda>file. ('''', Some (External ''executable file not found in %PATH%''))),
      exec_Run = (\<lambda>path args. if path = '''' then ('''', '''', Some (External ''exec: no command''))
                               else (''out'', '''', None))\<rparr>"

section \<open>Properties of the OS flag\<close>

lemma length_splitAcc: "length (splitAcc cur s sep) = Suc (count_list s sep)"
  by (induction s arbitrary: cur) simp_all

lemma length_Split: "length (Split s sep) = Suc (count_list s sep)"
  by (simp add: Split_def length_splitAcc)

lemma parseParts_ok:
  "list_all oneEq parts \<Longrightarrow> \<exists>m. parseParts raw parts osInfo = Inr m"
  by (induction parts arbitrary: osInfo) (auto simp: oneEq_def length_Split Let_def)

lemma parseParts_fail:
  "\<not> list_all oneEq parts \<Longrightarrow>
   parseParts raw parts osInfo = Inl (Errorf (''Invalid format for --os flag: '' @ raw))"
  by (induction parts arbitrary: osInfo) (auto simp: oneEq_def length_Split Let_def)

text \<open>
  C7. \<open>validateOS\<close> accepts \<open>linux\<close> and \<open>windows\<close>; every other input is rejected with
  the message \<open>Invalid OS: s. Valid OS are: linux, windows\<close>, the options in that order.
\<close>

theorem validateOS_message:
  "validateOS ''linux'' = None \<and> validateOS ''windows'' = None \<and>
   (s \<noteq> ''linux'' \<and> s \<noteq> ''windows'' \<longrightarrow>
      validateOS s = Some (Errorf (''Invalid OS: '' @ s @ ''. Valid OS are: linux, windows'')))"
  by (simp add: validateOS_def ValidOS_def)

theorem validateOS_message_witness:
  "validateOS ''linux'' = None \<and> validateOS ''windows'' = None \<and>
   validateOS ''foo'' = Some (Errorf ''Invalid OS: foo. Valid OS are: linux, windows'')"
  using validateOS_message [of "''foo''"] by simp

text \<open>
  C3, as the code has it. \<open>parseOSFlag\<close> fails exactly when some comma-separated part
  does not hold exactly one \<open>=\<close> (the part is split at every \<open>=\<close>, and the tokens may be
  empty); the error is the format error quoting the raw flag value. Every other input
  parses.
\<close>

theorem parseOSFlag_fails_iff:
  "(if list_all oneEq (Split s CHR '','')
    then \<exists>os version. parseOSFlag s = Inr (os, version)
    else parseOSFlag s = Inl (Errorf (''Invalid format for --os flag: '' @ s)))"
proof (cases "list_all oneEq (Split s CHR '','')")
  case True
  from parseParts_ok [OF True]
  obtain m where "parseParts s (Split s CHR '','') [''os'' \<mapsto> ''linux'', ''version'' \<mapsto> ''''] = Inr m"
    by blast
  with True show ?thesis by (simp add: parseOSFlag_def Let_def)
next
  case False
  from parseParts_fail [OF False] False show ?thesis by (simp add: parseOSFlag_def)
qed

theorem parseOSFlag_fails_iff_witness:
  "parseOSFlag ''os=windows,version'' =
     Inl (Errorf ''Invalid format for --os flag: os=windows,version'')"
  using parseOSFlag_fails_iff [of "''os=windows,version''"] by (simp add: oneEq_def Split_def)

text \<open>
  C3, as the specification words it, fails in both directions: \<open>version=a=b\<close> splits at
  its first \<open>=\<close> into two non-empty tokens and is rejected, and \<open>os=\<close> has an empty value
  and is accepted.
\<close>

theorem parseOSFlag_first_eq_counterexample:
  "list_all splitsAtFirstEq (Split ''os=linux,version=a=b'' CHR '','') \<and>
   parseOSFlag ''os=linux,version=a=b'' =
     Inl (Errorf ''Invalid format for --os flag: os=linux,version=a=b'') \<and>
   \<not> list_all splitsAtFirstEq (Split ''os='' CHR '','') \<and>
   parseOSFlag ''os='' = Inr ('''', '''')"
  by (simp add: splitsAtFirstEq_def parseOSFlag_def lookup_def Split_def)

text \<open>
  C4, as the code has it. The empty flag value is one empty part, which holds no \<open>=\<close>:
  \<open>parseOSFlag\<close> rejects it with the format error (the raw value it quotes is empty).
\<close>

theorem parseOSFlag_empty:
  "parseOSFlag '''' = Inl (Errorf ''Invalid format for --os flag: '')"
  by (simp add: parseOSFlag_def Split_def)

text \<open>C4 as stated: the empty flag value does not parse to the defaults.\<close>

theorem parseOSFlag_empty_counterexample:
  "parseOSFlag '''' \<noteq> Inr (''linux'', '''')"
  by (simp add: parseOSFlag_def Split_def)

section \<open>Properties of \<open>Run\<close>\<close>

text \<open>The errors of \<open>parseOSFlag\<close> and \<open>validateOS\<close> are \<open>Errorf\<close> values.\<close>

lemma parseParts_Inl: "parseParts raw parts osInfo = Inl e \<Longrightarrow> \<exists>m. e = Errorf m"
  by (induction parts arbitrary: osInfo) (auto simp: Let_def split: if_splits)

lemma parseOSFlag_Inl: "parseOSFlag s = Inl e \<Longrightarrow> \<exists>m. e = Errorf m"
  by (auto simp: parseOSFlag_def Let_def split: sum.splits dest: parseParts_Inl)

lemma validateOS_Some: "validateOS os = Some e \<Longrightarrow> \<exists>m. e = Errorf m"
  by (auto simp: validateOS_def Let_def split: if_splits)

text \<open>Where the parts of \<open>Run\<close> can end, and what they hand on.\<close>

lemma provision_status: "r_status (provision c fl evs cc n) \<noteq> ExitMessage rs m e"
  by (simp add: provision_def split: prod.splits option.splits)

lemma provision_node: "r_node (provision c fl evs cc n) = Some n"
  by (simp add: provision_def split: prod.splits option.splits)

lemma prepare_Inl: "prepare c fl mem cc = Inl (evs, st) \<Longrightarrow> st = IndexPanic \<and> Nodes cc = []"
  by (auto simp: prepare_def Let_def split: if_splits prod.splits)

lemma prepare_Inr_node:
  "prepare c fl mem cc = Inr (evs, cc1, n) \<Longrightarrow>
   Worker n = workerNode fl \<and> ControlPlane n = cpNode fl"
  by (auto simp: prepare_def Let_def split: if_splits prod.splits)

lemma Run_ExitMessage:
  "(r_status (Run c fl mem cc) = ExitMessage rs m e) = (preflight c fl = Some (ExitMessage rs m e))"
  by (auto simp: Run_def provision_status split: option.splits sum.splits dest: prepare_Inl)

lemma Run_node:
  "r_node (Run c fl mem cc) = Some n \<Longrightarrow> \<exists>evs cc1. prepare c fl mem cc = Inr (evs, cc1, n)"
  by (auto simp: Run_def provision_node split: option.splits sum.splits)

lemma preflight_InvalidWindowsVersion:
  "(preflight c fl = Some (ExitMessage Usage ''{{.err}}'' (Some (InvalidWindowsVersion v)))) =
   (\<exists>os. parseOSFlag (osType fl) = Inr (os, v) \<and> validateOS os = None \<and> v \<noteq> '''' \<and>
         v \<notin> set (supportedWindowsVersions c))"
proof (cases "parseOSFlag (osType fl)")
  case (Inl e)
  then show ?thesis by (auto simp: preflight_def dest: parseOSFlag_Inl)
next
  case (Inr p)
  obtain os ver where p: "p = (os, ver)" by (cases p)
  show ?thesis
  proof (cases "validateOS os")
    case (Some e)
    with Inr p show ?thesis by (auto simp: preflight_def dest: validateOS_Some)
  next
    case None
    with Inr p show ?thesis
      by (auto simp: preflight_def validateWindowsOSVersion_def split: if_splits)
  qed
qed

lemmas run_defs = Run_def preflight_def parseOSFlag_def Split_def lookup_def validateOS_def
  ValidOS_def validateWindowsOSVersion_def prepare_def nextName_def provision_def
  sampleCollab_def sampleCluster_def init_flags_def

text \<open>
  C5, as the code has it. The Windows version check is guarded by the version string,
  not by the OS kind: it runs exactly when the parsed version is not empty. \<open>Run\<close> ends
  with \<open>InvalidWindowsVersion\<close> exactly when the flag parses, the OS kind is valid, and
  the parsed version is non-empty and unsupported, whatever the kind. (For kind
  \<open>windows\<close> the parsed version is never empty: it defaults to \<open>2022\<close>.)
\<close>

theorem Run_InvalidWindowsVersion_iff:
  "(\<exists>v. r_status (Run c fl mem cc) = ExitMessage Usage ''{{.err}}'' (Some (InvalidWindowsVersion v))) =
   (\<exists>os version. parseOSFlag (osType fl) = Inr (os, version) \<and> validateOS os = None \<and>
       version \<noteq> '''' \<and> version \<notin> set (supportedWindowsVersions c))"
  unfolding Run_ExitMessage preflight_InvalidWindowsVersion by blast

theorem Run_InvalidWindowsVersion_iff_witness:
  "\<exists>v. r_status (Run sampleCollab (init_flags\<lparr>osType := ''os=windows,version=11''\<rparr>) '''' sampleCluster) =
     ExitMessage Usage ''{{.err}}'' (Some (InvalidWindowsVersion v))"
  using Run_InvalidWindowsVersion_iff
    [of sampleCollab "init_flags\<lparr>osType := ''os=windows,version=11''\<rparr>" "''''" sampleCluster]
  by (simp add: run_defs)

text \<open>
  C5 as stated fails: \<open>os=linux,version=foo\<close> parses to kind \<open>linux\<close>, and the run ends with
  \<open>InvalidWindowsVersion\<close>.
\<close>

theorem Run_linux_version_counterexample:
  "parseOSFlag ''os=linux,version=foo'' = Inr (''linux'', ''foo'') \<and>
   r_status (Run sampleCollab (init_flags\<lparr>osType := ''os=linux,version=foo''\<rparr>) '''' sampleCluster) =
     ExitMessage Usage ''{{.err}}'' (Some (InvalidWindowsVersion ''foo''))"
  by (simp add: run_defs)

text \<open>
  C6, the code at the failing input. A control-plane node is requested for the sample
  cluster, which is not HA and has one node; the memory flag is not set. \<open>Run\<close> prints
  the failure message and goes on: it returns normally, the working config has the
  reduced memory and the new control-plane node, and that config is saved.
\<close>

theorem Run_nonHA_control_plane_proceeds:
  "\<not> IsHA sampleCollab sampleCluster \<and>
   r_status (Run sampleCollab (init_flags\<lparr>cpNode := True, osType := ''os=linux''\<rparr>) '''' sampleCluster) = Returned \<and>
   FailureT msgNonHA \<in> set (r_out (Run sampleCollab (init_flags\<lparr>cpNode := True, osType := ''os=linux''\<rparr>) '''' sampleCluster)) \<and>
   r_cc (Run sampleCollab (init_flags\<lparr>cpNode := True, osType := ''os=linux''\<rparr>) '''' sampleCluster) =
     sampleCluster\<lparr>Memory := 2200,
       Nodes := Nodes sampleCluster @
         [\<lparr>Name = ''m02'', Worker = True, ControlPlane = True, KubernetesVersion = ''v1.30.0''\<rparr>]\<rparr> \<and>
   r_saved (Run sampleCollab (init_flags\<lparr>cpNode := True, osType := ''os=linux''\<rparr>) '''' sampleCluster) =
     Some (r_cc (Run sampleCollab (init_flags\<lparr>cpNode := True, osType := ''os=linux''\<rparr>) '''' sampleCluster))"
  by (simp add: run_defs)

text \<open>
  The other rejection does what the claim says: a control-plane request for a Windows
  node ends the process before the cluster is loaded, with nothing printed, built or
  saved.
\<close>

lemma Run_windows_control_plane_exits:
  "parseOSFlag (osType fl) = Inr (''windows'', version) \<Longrightarrow>
   version \<in> set (supportedWindowsVersions c) \<Longrightarrow> cpNode fl \<Longrightarrow>
   Run c fl mem cc =
     \<lparr>r_status = ExitMessage Usage ''Windows node cannot be used as control-plane nodes.'' None,
      r_out = [], r_cc = cc, r_node = None, r_saved = None\<rparr>"
  by (simp add: Run_def preflight_def validateOS_def ValidOS_def validateWindowsOSVersion_def)

text \<open>
  In general, for whatever the other packages do: once the flag checks pass, a
  control-plane request on a cluster that is not HA only adds the failure message to the
  output, and the control-plane node descriptor is built and handed to \<open>node.Add\<close>.
\<close>

lemma Run_nonHA_control_plane_builds_node:
  "preflight c fl = None \<Longrightarrow> cpNode fl \<Longrightarrow> \<not> IsHA c cc \<Longrightarrow> Nodes cc \<noteq> [] \<Longrightarrow>
   \<exists>n. r_node (Run c fl mem cc) = Some n \<and> ControlPlane n \<and>
       FailureT msgNonHA \<in> set (r_out (Run c fl mem cc))"
proof -
  assume pf: "preflight c fl = None" and cp: "cpNode fl" and ha: "\<not> IsHA c cc"
    and ne: "Nodes cc \<noteq> []"
  obtain out3 name where nn: "nextName c (Nodes cc) = (out3, name)"
    by (cases "nextName c (Nodes cc)")
  from cp ha ne nn obtain evs cc1 n where
    p: "prepare c fl mem cc = Inr (evs, cc1, n)" and n: "ControlPlane n"
    and f: "FailureT msgNonHA \<in> set evs"
    by (simp add: prepare_def Let_def)
  have "r_node (provision c fl evs cc1 n) = Some n"
    by (rule provision_node)
  moreover have "FailureT msgNonHA \<in> set (r_out (provision c fl evs cc1 n))"
    using f by (simp add: provision_def split: prod.splits option.splits)
  ultimately show ?thesis using pf p n by (simp add: Run_def)
qed

text \<open>
  C8. For every non-empty node list the preparation goes through to the call of
  \<open>node.Add\<close>, and the new node's name is \<open>node.Name\<close> of the id plus one, where the id is
  what \<open>node.ID\<close> reads from the last node's name; when \<open>node.ID\<close> fails the id is the
  length of the node list and one line on the error output reports it; when it succeeds
  no such line is written. (The sum is Go's \<open>int\<close> addition.)
\<close>

theorem prepare_allocates_name:
  assumes "Nodes cc \<noteq> []"
  shows "\<exists>evs cc1 n. prepare c fl mem cc = Inr (evs, cc1, n) \<and>
           (case ID c (Name (last (Nodes cc))) of
              Inr lastID \<Rightarrow>
                Name n = node_Name c (lastID + 1) \<and>
                (\<forall>f k e. ErrLn f k e \<notin> set evs)
            | Inl err \<Rightarrow>
                Name n = node_Name c (of_nat (length (Nodes cc)) + 1) \<and>
                ErrLn ''determining last node index (will assume %d): %v''
                  (of_nat (length (Nodes cc))) err \<in> set evs)"
  using assms
  by (auto simp: prepare_def nextName_def Let_def split: sum.splits)

theorem prepare_allocates_name_witness:
  "Nodes sampleCluster \<noteq> [] \<and>
   (\<exists>evs cc1 n. prepare sampleCollab init_flags '''' sampleCluster = Inr (evs, cc1, n) \<and>
      Name n = ''m02'' \<and>
      ErrLn ''determining last node index (will assume %d): %v'' 1 (External ''invalid syntax'')
        \<in> set evs)"
  using prepare_allocates_name [of sampleCluster sampleCollab init_flags "''''"]
  by (simp add: run_defs)

text \<open>
  C10. Whenever \<open>Run\<close> builds a node descriptor: with the two role flags at the defaults
  that \<open>init\<close> registers the node is a worker and not a control-plane node; and a node
  with neither role is built only when the \<open>worker\<close> flag is false, which is not its
  default.
\<close>

theorem Run_default_roles:
  assumes "r_node (Run c fl mem cc) = Some n"
  shows "(cpNode fl = cpNode init_flags \<and> workerNode fl = workerNode init_flags \<longrightarrow>
            Worker n \<and> \<not> ControlPlane n) \<and>
         (\<not> Worker n \<and> \<not> ControlPlane n \<longrightarrow> \<not> workerNode fl \<and> workerNode init_flags)"
proof -
  from assms obtain evs cc1 where "prepare c fl mem cc = Inr (evs, cc1, n)"
    by (blast dest: Run_node)
  then have "Worker n = workerNode fl \<and> ControlPlane n = cpNode fl"
    by (rule prepare_Inr_node)
  then show ?thesis by (simp add: init_flags_def)
qed

theorem Run_default_roles_witness:
  "r_node (Run sampleCollab (init_flags\<lparr>osType := ''os=linux''\<rparr>) '''' sampleCluster) =
     Some \<lparr>Name = ''m02'', Worker = True, ControlPlane = False, KubernetesVersion = ''v1.30.0''\<rparr> \<and>
   Worker \<lparr>Name = ''m02'', Worker = True, ControlPlane = False, KubernetesVersion = ''v1.30.0''\<rparr> \<and>
   \<not> ControlPlane \<lparr>Name = ''m02'', Worker = True, ControlPlane = False, KubernetesVersion = ''v1.30.0''\<rparr>"
proof -
  have h: "r_node (Run sampleCollab (init_flags\<lparr>osType := ''os=linux''\<rparr>) '''' sampleCluster) =
     Some \<lparr>Name = ''m02'', Worker = True, ControlPlane = False, KubernetesVersion = ''v1.30.0''\<rparr>"
    by (simp add: run_defs)
  from Run_default_roles [OF h] h show ?thesis by (simp add: init_flags_def)
qed

text \<open>
  With every flag at its default no descriptor is built at all: the default of the \<open>os\<close>
  flag is \<open>linux\<close>, which holds no \<open>=\<close>, so the run ends at the format check.
\<close>

lemma init_flags_os_rejected:
  "Run c init_flags mem cc =
     \<lparr>r_status = ExitMessage Usage ''{{.err}}''
                   (Some (Errorf ''Invalid format for --os flag: linux'')),
      r_out = [], r_cc = cc, r_node = None, r_saved = None\<rparr>"
  by (simp add: Run_def preflight_def parseOSFlag_def Split_def init_flags_def)

section \<open>Properties of \<open>cmdOut\<close>\<close>

text \<open>
  C1, as the code has it. Whatever the run's error, \<open>cmdOut\<close> returns the captured
  standard output together with that error, and logs three lines in this order: the
  command line, the captured standard output, the captured standard error. The captured
  standard error goes to the log only; it is no part of the result.
\<close>

theorem cmdOut_returns_stdout_and_error:
  assumes "exec_Run h powershell (''-NoProfile'' # ''-NonInteractive'' # args) = (stdout, stderr, err)"
  shows "cmdOut h powershell args =
           ([Infof ''[executing ==>] : %v %v''
               [powershell, Join (''-NoProfile'' # ''-NonInteractive'' # args) '' ''],
             Infof ''[stdout =====>] : %s'' [stdout],
             Infof ''[stderr =====>] : %s'' [stderr]],
            stdout, err)"
  using assms by (simp add: cmdOut_def)

theorem cmdOut_returns_stdout_and_error_witness:
  "cmdOut (failingHost ''boom'') ''powershell.exe'' [''Get-VM''] =
     ([Infof ''[executing ==>] : %v %v'' [''powershell.exe'', ''-NoProfile -NonInteractive Get-VM''],
       Infof ''[stdout =====>] : %s'' [''out''],
       Infof ''[stderr =====>] : %s'' [''boom'']],
      ''out'', Some (External ''exit status 1''))"
proof -
  have h: "exec_Run (failingHost ''boom'') ''powershell.exe''
             (''-NoProfile'' # ''-NonInteractive'' # [''Get-VM'']) =
           (''out'', ''boom'', Some (External ''exit status 1''))"
    by (simp add: failingHost_def)
  from cmdOut_returns_stdout_and_error [OF h] show ?thesis by simp
qed

text \<open>
  C1 as stated fails: two failing runs that differ in what they wrote to standard error
  give the caller the same result, so the result does not carry the standard error.
\<close>

theorem cmdOut_drops_stderr_counterexample:
  "fst (snd (exec_Run (failingHost ''boom'') ''powershell.exe'' [''-NoProfile'', ''-NonInteractive'', ''Get-VM''])) \<noteq>
   fst (snd (exec_Run (failingHost ''bang'') ''powershell.exe'' [''-NoProfile'', ''-NonInteractive'', ''Get-VM''])) \<and>
   snd (cmdOut (failingHost ''boom'') ''powershell.exe'' [''Get-VM'']) =
   snd (cmdOut (failingHost ''bang'') ''powershell.exe'' [''Get-VM''])"
  by (simp add: cmdOut_def failingHost_def)

text \<open>
  C2, as the code has it. When \<open>powershell.exe\<close> was not found at start, \<open>cmdOut\<close> has no
  guard on the cached path: it logs the command line built from the path \<open>LookPath\<close>
  returned, runs it, and returns the error of that run unchanged.
\<close>

theorem cmdOut_without_powershell:
  assumes "snd (LookPath h ''powershell.exe'') = Some e"
  shows "snd (snd (cmdOut h (init_powershell h) args)) =
           snd (snd (exec_Run h (fst (LookPath h ''powershell.exe''))
                       (''-NoProfile'' # ''-NonInteractive'' # args))) \<and>
         hd (fst (cmdOut h (init_powershell h) args)) =
           Infof ''[executing ==>] : %v %v''
             [fst (LookPath h ''powershell.exe''),
              Join (''-NoProfile'' # ''-NonInteractive'' # args) '' '']"
proof -
  obtain stdout stderr err where
    "exec_Run h (fst (LookPath h ''powershell.exe'')) (''-NoProfile'' # ''-NonInteractive'' # args) =
       (stdout, stderr, err)"
    by (cases "exec_Run h (fst (LookPath h ''powershell.exe'')) (''-NoProfile'' # ''-NonInteractive'' # args)")
  then show ?thesis by (simp add: cmdOut_def init_powershell_def)
qed

theorem cmdOut_without_powershell_witness:
  "snd (LookPath bareHost ''powershell.exe'') = Some (External ''executable file not found in %PATH%'') \<and>
   snd (snd (cmdOut bareHost (init_powershell bareHost) [''Get-VM''])) = Some (External ''exec: no command'')"
proof -
  have h: "snd (LookPath bareHost ''powershell.exe'') = Some (External ''executable file not found in %PATH%'')"
    by (simp add: bareHost_def)
  from cmdOut_without_powershell [OF h, of "[''Get-VM'']"] h show ?thesis
    by (simp add: bareHost_def)
qed

text \<open>
  C2 as stated fails: on a host without \<open>powershell.exe\<close> the call does not return
  \<open>ErrPowerShellNotFound\<close>; it returns what running the empty path returned.
\<close>

theorem cmdOut_without_powershell_counterexample:
  "snd (LookPath bareHost ''powershell.exe'') \<noteq> None \<and>
   snd (snd (cmdOut bareHost (init_powershell bareHost) [''Get-VM''])) \<noteq> Some ErrPowerShellNotFound"
  by (simp add: cmdOut_def init_powershell_def bareHost_def)

end
